theory Spec2Isabelle
  imports Complex_Main "HOL-Library.Word"
begin

section \<open>Shared vocabulary\<close>

text \<open>
  Both managers act on collaborators that are not part of the verified core (loggers, the
  io service, threads, transports, the address manager, the status manager). Each call to
  such a collaborator is recorded, in program order, as one event of a trace that the
  manager's state carries. Log lines are recorded with their level and their fixed text;
  the values streamed into a log line are not part of the model.
\<close>

type_synonym sha256 = "256 word"

type_synonym ip_address = nat
  \<comment> \<open>a \<open>boost::asio::ip::address\<close>, as the number that orders addresses\<close>

record endpoint =
  address :: ip_address
  port :: "16 word"

datatype script_op =
    Push_height "32 word"
  | Push_big_number "32 word"
  | Push_flag nat

type_synonym script = "script_op list"

record transaction_in =
  script_signature :: script

record transaction =
  transactions_in :: "transaction_in list"

record block_header =
  hash_previous_block :: sha256
  hash_merkle_root :: sha256
  timestamp :: "32 word"
  bits :: "32 word"
  nonce :: "32 word"

record block =
  header :: block_header
  transactions :: "transaction list"

record block_index =
  height :: "32 word"

record network_address_t =
  na_address :: nat
  na_port :: "16 word"
  na_timestamp :: "32 word"
  last_try :: "64 word"

record tcp_transport =
  socket_remote_endpoint :: "endpoint option"

datatype state_pow_t =
  state_pow_none | state_pow_starting | state_pow_started | state_pow_stopping
  | state_pow_stopped

datatype state_pos_t =
  state_pos_none | state_pos_starting | state_pos_started | state_pos_stopping
  | state_pos_stopped

datatype event =
    Log_error string
  | Log_info string
  | Log_debug string
  | Set_state_pow state_pow_t
  | Set_state_pos state_pos_t
  | Thread_spawn bool
  | Thread_join bool
  | Post_status_hashes_per_second
  | Block_print block
  | Post_process_block block
  | Transport_stop tcp_transport
  | Connection_start endpoint
  | Connection_start_to endpoint
  | Connection_stop endpoint
  | On_connection_attempt network_address_t
  | Address_manager_add network_address_t network_address_t
  | Async_resolve "string \<times> 16 word"
  | Timer_expires_from_now nat
  | Status_insert_network string nat

datatype error =
    Vector_front_on_empty
  | Assertion_failed
  | Index_out_of_range
  | Stoi_failed
  | Remote_endpoint_failed

section \<open>Configuration (configuration.cpp)\<close>

text \<open>
  The fields of \<open>configuration\<close> that the two managers read, with the getters of
  configuration.cpp. \<open>bootstrap_nodes\<close> is declared in the header only.
\<close>

record configuration =
  m_args :: "string \<rightharpoonup> string"
  m_network_port_tcp :: "16 word"
  m_network_tcp_inbound_maximum :: nat
  m_bootstrap_nodes :: "(string \<times> 16 word) list"

definition args :: "configuration \<Rightarrow> (string \<rightharpoonup> string)" where
  "args cfg = m_args cfg"

definition network_port_tcp :: "configuration \<Rightarrow> 16 word" where
  "network_port_tcp cfg = m_network_port_tcp cfg"

definition network_tcp_inbound_maximum :: "configuration \<Rightarrow> nat" where
  "network_tcp_inbound_maximum cfg = m_network_tcp_inbound_maximum cfg"

definition bootstrap_nodes :: "configuration \<Rightarrow> (string \<times> 16 word) list" where
  "bootstrap_nodes cfg = m_bootstrap_nodes cfg"

text \<open>
  \<open>set_network_tcp_inbound_maximum\<close>; the constant \<open>network::tcp_inbound_minimum\<close> is
  declared outside the sources and is a parameter here.
\<close>

definition set_network_tcp_inbound_maximum ::
  "nat \<Rightarrow> nat \<Rightarrow> configuration \<Rightarrow> configuration" where
  "set_network_tcp_inbound_maximum tcp_inbound_minimum val cfg =
     (if val < tcp_inbound_minimum
      then cfg\<lparr>m_network_tcp_inbound_maximum := tcp_inbound_minimum\<rparr>
      else cfg\<lparr>m_network_tcp_inbound_maximum := val\<rparr>)"

text \<open>
  A configuration for concrete runs: four mining cores asked for, an inbound maximum of
  two, no bootstrap node.
\<close>

definition example_configuration :: configuration where
  "example_configuration =
     \<lparr>m_args = [''mine-cpu'' \<mapsto> ''4''], m_network_port_tcp = 0,
      m_network_tcp_inbound_maximum = 2, m_bootstrap_nodes = []\<rparr>"

definition example_stoi :: "string \<Rightarrow> int option" where
  "example_stoi v = (if v = ''4'' then Some 4 else if v = ''0'' then Some 0 else None)"

section \<open>Mining manager (mining\_manager.cpp)\<close>

subsection \<open>State\<close>

text \<open>
  Modelled from the spec: the enumerations \<open>state_pow_t\<close> and \<open>state_pos_t\<close> are declared in
  the header \<open>mining_manager.hpp\<close>, which is not among the sources. Their enumerators are
  ordered as the specification lists the states: none, starting, started, stopping, stopped.
  The rank is what the comparison \<open>m_state_pow < state_pow_starting\<close> reads.
\<close>

fun state_pow_rank :: "state_pow_t \<Rightarrow> nat" where
  "state_pow_rank state_pow_none = 0"
| "state_pow_rank state_pow_starting = 1"
| "state_pow_rank state_pow_started = 2"
| "state_pow_rank state_pow_stopping = 3"
| "state_pow_rank state_pow_stopped = 4"

fun state_pos_rank :: "state_pos_t \<Rightarrow> nat" where
  "state_pos_rank state_pos_none = 0"
| "state_pos_rank state_pos_starting = 1"
| "state_pos_rank state_pos_started = 2"
| "state_pos_rank state_pos_stopping = 3"
| "state_pos_rank state_pos_stopped = 4"

text \<open>
  A \<open>std::thread\<close> running \<open>mining_manager::loop(is_proof_of_stake)\<close> is identified by the
  argument it was bound to. Every assignment to \<open>m_state_pow\<close> and \<open>m_state_pos\<close> is also an
  event of the trace, because the worker threads read these fields while a start or stop is
  in progress.
\<close>

datatype thread = Thread_loop bool

record mining_manager =
  m_state_pow :: state_pow_t
  m_state_pos :: state_pos_t
  m_hashes_per_second :: real
  m_hps_timer_start :: int
  threads :: "thread list"
  thread_pos :: "thread option"
  mining_trace :: "event list"

definition mining_manager_init :: mining_manager where
  "mining_manager_init =
     \<lparr>m_state_pow = state_pow_none, m_state_pos = state_pos_none,
      m_hashes_per_second = 0, m_hps_timer_start = 0, threads = [],
      thread_pos = None, mining_trace = []\<rparr>"

definition emit :: "event list \<Rightarrow> mining_manager \<Rightarrow> mining_manager" where
  "emit es mm = mm\<lparr>mining_trace := mining_trace mm @ es\<rparr>"

definition set_state_pow :: "state_pow_t \<Rightarrow> mining_manager \<Rightarrow> mining_manager" where
  "set_state_pow st mm = emit [Set_state_pow st] (mm\<lparr>m_state_pow := st\<rparr>)"

definition set_state_pos :: "state_pos_t \<Rightarrow> mining_manager \<Rightarrow> mining_manager" where
  "set_state_pos st mm = emit [Set_state_pos st] (mm\<lparr>m_state_pos := st\<rparr>)"

subsection \<open>Starting and stopping\<close>

text \<open>The loop \<open>for (auto i = 0; i < cores; i++)\<close> of \<open>start_proof_of_work\<close>.\<close>

fun spawn_pow_threads :: "nat \<Rightarrow> mining_manager \<Rightarrow> mining_manager" where
  "spawn_pow_threads 0 mm = mm"
| "spawn_pow_threads (Suc n) mm =
     spawn_pow_threads n
       (emit [Thread_spawn False] (mm\<lparr>threads := threads mm @ [Thread_loop False]\<rparr>))"

definition start_proof_of_work :: "mining_manager \<Rightarrow> mining_manager" where
  "start_proof_of_work mm =
     (if state_pow_rank (m_state_pow mm) < state_pow_rank state_pow_starting
         \<or> m_state_pow mm = state_pow_stopped
      then
        (let mm1 = set_state_pow state_pow_starting mm;
             cores = 1;
             mm2 = emit [Log_info ''Mining manager is adding Proof-of-Work threads.''] mm1;
             mm3 = spawn_pow_threads cores mm2
         in set_state_pow state_pow_started mm3)
      else mm)"


text \<open>
  The loop over \<open>threads\<close> of \<open>stop_proof_of_work\<close>: each joinable thread is joined, and an
  exception of \<open>join\<close> is swallowed. A thread of \<open>threads\<close> has not been joined before.
\<close>

fun join_threads :: "thread list \<Rightarrow> mining_manager \<Rightarrow> mining_manager" where
  "join_threads [] mm = mm"
| "join_threads (Thread_loop b # ts) mm = join_threads ts (emit [Thread_join b] mm)"

text \<open>The events that \<open>join_threads\<close> adds.\<close>

definition join_events :: "thread list \<Rightarrow> event list" where
  "join_events ts = map (\<lambda>t. case t of Thread_loop b \<Rightarrow> Thread_join b) ts"


text \<open>
  \<open>thread_pos\<close> holds the stake thread while it can be joined: it is assigned by
  \<open>start_proof_of_stake\<close> and empty again after the \<open>join\<close> of \<open>stop_proof_of_stake\<close>.
\<close>

definition start_proof_of_stake :: "mining_manager \<Rightarrow> mining_manager" where
  "start_proof_of_stake mm =
     (if state_pos_rank (m_state_pos mm) < state_pos_rank state_pos_starting
         \<or> m_state_pos mm = state_pos_stopped
      then
        (let mm1 = set_state_pos state_pos_starting mm;
             mm2 = emit [Log_info ''Mining manager is adding Proof-of-Stake threads.''] mm1;
             mm3 = emit [Thread_spawn True] (mm2\<lparr>thread_pos := Some (Thread_loop True)\<rparr>)
         in set_state_pos state_pos_started mm3)
      else mm)"

definition stop_proof_of_stake :: "mining_manager \<Rightarrow> mining_manager" where
  "stop_proof_of_stake mm =
     (if m_state_pos mm = state_pos_started
      then
        (let mm1 = set_state_pos state_pos_stopping mm;
             mm2 = emit [Thread_join True] (mm1\<lparr>thread_pos := None\<rparr>)
         in set_state_pos state_pos_stopped mm2)
      else mm)"

text \<open>
  \<open>mining_manager::start\<close>. The parameter \<open>stoi\<close> is \<open>std::stoi\<close>, which throws (\<open>None\<close>) on
  a value that is no number or is out of range. The exception leaves \<open>start\<close> after
  proof-of-stake has been started.
\<close>

definition mining_manager_start ::
  "(string \<Rightarrow> int option) \<Rightarrow> configuration \<Rightarrow> mining_manager
     \<Rightarrow> error option \<times> mining_manager" where
  "mining_manager_start stoi cfg mm =
     (let mm1 = start_proof_of_stake mm in
      case args cfg ''mine-cpu'' of
        None \<Rightarrow> (None, mm1)
      | Some v \<Rightarrow>
          (case stoi v of
             None \<Rightarrow> (Some Stoi_failed, mm1)
           | Some n \<Rightarrow> if 0 < n then (None, start_proof_of_work mm1) else (None, mm1)))"


subsection \<open>Submitting a found block and the extra nonce\<close>

text \<open>
  What the mining manager reads from code outside the sources: the block's hash, the
  target that \<open>big_number().set_compact(bits).get_sha256()\<close> decodes, whether the block
  is a proof-of-work block, the best chain's hash held by \<open>globals\<close>, the coinbase flags, the
  serialised size of a script, and the merkle root of a block.
\<close>

record mining_env =
  get_hash :: "block \<Rightarrow> sha256"
  compact_target :: "32 word \<Rightarrow> sha256"
  is_proof_of_work :: "block \<Rightarrow> bool"
  hash_best_chain :: sha256
  coinbase_flags :: script
  script_size :: "script \<Rightarrow> nat"
  build_merkle_tree :: "block \<Rightarrow> sha256"

text \<open>
  \<open>key_reserved\<close> records whether \<open>keep_key\<close> has been called; the wallet holds the
  getdata-request counters.
\<close>

record key_reserved =
  key_kept :: bool

record wallet =
  request_counts :: "sha256 \<rightharpoonup> int"

definition keep_key :: "key_reserved \<Rightarrow> key_reserved" where
  "keep_key k = k\<lparr>key_kept := True\<rparr>"

text \<open>
  \<open>check_work\<close>. The task posted to the io service, which calls \<open>process_block\<close> on the
  block, is the event \<open>Post_process_block\<close>.
\<close>

definition check_work ::
  "mining_env \<Rightarrow> block \<Rightarrow> wallet \<Rightarrow> key_reserved \<Rightarrow> bool \<Rightarrow> mining_manager
     \<Rightarrow> wallet \<times> key_reserved \<times> mining_manager" where
  "check_work env blk w reserve_key is_proof_of_stake mm =
     (let hash_block = get_hash env blk;
          hash_target = compact_target env (bits (header blk))
      in
        if hash_target < hash_block \<and> is_proof_of_work env blk
        then
          (w, reserve_key,
           emit [Log_error
             ''Mining manager check work failed, Proof-of-Work does not meet target.''] mm)
        else
          (let mm1 = emit [Log_debug ''Mining manager found new block'', Block_print blk] mm
           in
             if hash_previous_block (header blk) \<noteq> hash_best_chain env
             then
               (w, reserve_key,
                emit [Log_error ''Mining manager block is stale, dropping.''] mm1)
             else
               (w\<lparr>request_counts := (request_counts w)(get_hash env blk \<mapsto> 0)\<rparr>,
                keep_key reserve_key,
                emit [Post_process_block blk] mm1)))"

fun posted_blocks :: "event list \<Rightarrow> block list" where
  "posted_blocks [] = []"
| "posted_blocks (Post_process_block b # es) = b # posted_blocks es"
| "posted_blocks (_ # es) = posted_blocks es"

text \<open>
  \<open>increment_extra_nonce\<close>. The function-static \<open>hash_previous\<close> and the counter that the
  caller passes by reference form the state. Indexing \<open>transactions()[0]\<close> or
  \<open>transactions_in()[0]\<close> of an empty vector, and the failing \<open>assert\<close> on the size of the
  script, end the call with an error.
\<close>

record extra_nonce_state =
  hash_previous :: sha256
  extra_nonce :: "32 word"

definition increment_extra_nonce ::
  "mining_env \<Rightarrow> block \<Rightarrow> block_index \<Rightarrow> extra_nonce_state
     \<Rightarrow> error + (block \<times> extra_nonce_state)" where
  "increment_extra_nonce env blk index_previous st =
     (let st1 = (if hash_previous st \<noteq> hash_previous_block (header blk)
                 then st\<lparr>extra_nonce := 0,
                         hash_previous := hash_previous_block (header blk)\<rparr>
                 else st);
          st2 = st1\<lparr>extra_nonce := extra_nonce st1 + 1\<rparr>;
          height' = height index_previous + 1;
          sig = [Push_height height', Push_big_number (extra_nonce st2)] @ coinbase_flags env
      in
        case transactions blk of
          [] \<Rightarrow> Inl Index_out_of_range
        | tx # txs \<Rightarrow>
            (case transactions_in tx of
               [] \<Rightarrow> Inl Index_out_of_range
             | tin # tins \<Rightarrow>
                 (let blk1 = blk\<lparr>transactions :=
                               tx\<lparr>transactions_in :=
                                    tin\<lparr>script_signature := sig\<rparr> # tins\<rparr> # txs\<rparr>
                  in
                    if \<not> script_size env sig \<le> 100 then Inl Assertion_failed
                    else
                      Inr (blk1\<lparr>header := (header blk1)
                                   \<lparr>hash_merkle_root := build_merkle_tree env blk1\<rparr>\<rparr>,
                           st2))))"

text \<open>A small environment and a block with one coinbase input, for concrete runs.\<close>

definition example_mining_env :: mining_env where
  "example_mining_env =
     \<lparr>get_hash = (\<lambda>b. ucast (nonce (header b))), compact_target = (\<lambda>b. ucast b),
      is_proof_of_work = (\<lambda>b. True), hash_best_chain = 7, coinbase_flags = [],
      script_size = length, build_merkle_tree = (\<lambda>b. 0)\<rparr>"

definition example_block :: block where
  "example_block =
     \<lparr>header = \<lparr>hash_previous_block = 5, hash_merkle_root = 0, timestamp = 0,
                 bits = 9, nonce = 3\<rparr>,
      transactions = [\<lparr>transactions_in = [\<lparr>script_signature = []\<rparr>]\<rparr>]\<rparr>"

subsection \<open>The proof-of-work state machine\<close>


fun pow_writes :: "event list \<Rightarrow> state_pow_t list" where
  "pow_writes [] = []"
| "pow_writes (Set_state_pow st # es) = st # pow_writes es"
| "pow_writes (_ # es) = pow_writes es"




section \<open>Connection manager (tcp\_connection\_manager.cpp)\<close>

subsection \<open>State and environment\<close>

text \<open>
  A \<open>tcp_transport\<close> is known by what \<open>socket().remote_endpoint()\<close> answers: an endpoint,
  or \<open>None\<close> when the call throws (the socket is not connected). In the duplicate branch
  of \<open>handle_accept\<close> the call inside the log line has answered in the loop before.

  The table \<open>m_tcp_connections\<close> is a \<open>std::map\<close> from endpoints to weak pointers. It is
  the list of its entries in iteration order, which is ascending key order; an entry
  holds what the manager gave the connection when it made it. Whether the weak pointer of
  an entry can still be locked, whether its connection reports a valid transport, and
  what its transport's socket answers belong to the environment and are read through
  \<open>network_env\<close>, by the key of the entry.
\<close>

datatype direction = direction_incoming | direction_outgoing

record tcp_connection =
  direction :: direction

type_synonym connection_table = "(endpoint \<times> tcp_connection) list"

text \<open>
  The environment of the connection manager. Ban list, address classification
  (\<open>is_valid\<close>, \<open>is_local\<close>, \<open>group\<close>) and the conversions of \<open>network_address_t\<close> are
  code outside the sources. \<open>select\<close> is the address manager's choice: its first argument
  counts the calls of one tick, its second is the bias passed. \<open>get_adjusted\<close> is the
  adjusted time read in the given iteration of a tick, \<open>resolve\<close> the answer of the
  resolver (\<open>None\<close> for an error code), \<open>rand\<close> the random source of
  \<open>std::random_shuffle\<close>.

  The declarations of \<open>time::get_adjusted\<close> and \<open>last_try\<close> are not among the sources; both
  are unsigned 64-bit values here, so that their difference wraps.
\<close>

record network_env =
  is_address_banned :: "ip_address \<Rightarrow> bool"
  connection_lock :: "endpoint \<Rightarrow> bool"
  is_transport_valid :: "endpoint \<Rightarrow> bool"
  get_tcp_transport :: "endpoint \<Rightarrow> tcp_transport option"
  from_endpoint :: "endpoint \<Rightarrow> network_address_t"
  ipv4_mapped_address :: "network_address_t \<Rightarrow> ip_address"
  is_valid :: "network_address_t \<Rightarrow> bool"
  is_local :: "network_address_t \<Rightarrow> bool"
  group :: "network_address_t \<Rightarrow> nat"
  select :: "nat \<Rightarrow> nat \<Rightarrow> network_address_t"
  get_adjusted :: "nat \<Rightarrow> 64 word"
  resolve :: "string \<times> 16 word \<Rightarrow> endpoint option"
  rand :: "nat \<Rightarrow> nat"

record tcp_connection_manager =
  m_tcp_connections :: connection_table
  tcp_trace :: "event list"

definition tcp_connection_manager_init :: tcp_connection_manager where
  "tcp_connection_manager_init = \<lparr>m_tcp_connections = [], tcp_trace = []\<rparr>"

definition tcp_emit :: "event list \<Rightarrow> tcp_connection_manager \<Rightarrow> tcp_connection_manager" where
  "tcp_emit es s = s\<lparr>tcp_trace := tcp_trace s @ es\<rparr>"

text \<open>The order of endpoints: by address, then by port.\<close>

definition endpoint_less :: "endpoint \<Rightarrow> endpoint \<Rightarrow> bool" where
  "endpoint_less a b =
     (address a < address b \<or> address a = address b \<and> port a < port b)"

text \<open>\<open>m_tcp_connections[k] = v\<close> and \<open>m_tcp_connections.find(k)\<close>.\<close>

fun table_assign :: "endpoint \<Rightarrow> tcp_connection \<Rightarrow> connection_table \<Rightarrow> connection_table" where
  "table_assign k v [] = [(k, v)]"
| "table_assign k v ((k', v') # t) =
     (if k = k' then (k, v) # t
      else if endpoint_less k k' then (k, v) # (k', v') # t
      else (k', v') # table_assign k v t)"

definition table_find :: "connection_table \<Rightarrow> endpoint \<Rightarrow> tcp_connection option" where
  "table_find t k = map_of t k"

subsection \<open>Accepting and connecting\<close>

text \<open>
  The first loop of \<open>handle_accept\<close>. An exception of \<open>remote_endpoint()\<close> is caught inside
  the loop, entry by entry, and leaves \<open>is_duplicate\<close> as it is.
\<close>

fun is_duplicate_scan :: "tcp_transport \<Rightarrow> connection_table \<Rightarrow> bool" where
  "is_duplicate_scan transport [] = False"
| "is_duplicate_scan transport ((k, c) # t) =
     (case socket_remote_endpoint transport of
        None \<Rightarrow> is_duplicate_scan transport t
      | Some ep \<Rightarrow> if address k = address ep then True else is_duplicate_scan transport t)"

text \<open>
  \<open>handle_accept\<close>. Outside the loop \<open>remote_endpoint()\<close> is called with no handler: its
  exception leaves \<open>handle_accept\<close>, which is the first component of the result.
\<close>

definition handle_accept ::
  "network_env \<Rightarrow> configuration \<Rightarrow> tcp_transport \<Rightarrow> tcp_connection_manager
     \<Rightarrow> error option \<times> tcp_connection_manager" where
  "handle_accept env cfg transport s =
     (let is_duplicate = is_duplicate_scan transport (m_tcp_connections s) in
      if is_duplicate then
        (None,
         tcp_emit [Log_error ''TCP connection manager is dropping duplicate IP connection'',
           Transport_stop transport] s)
      else
        (case socket_remote_endpoint transport of
           None \<Rightarrow> (Some Remote_endpoint_failed, s)
         | Some ep \<Rightarrow>
             if is_address_banned env (address ep) then
               (None,
                tcp_emit [Log_info ''TCP connection manager is dropping banned connection'',
                  Transport_stop transport] s)
             else if network_tcp_inbound_maximum cfg \<le> length (m_tcp_connections s) then
               (None,
                tcp_emit [Log_error
                    ''TCP connection manager is dropping connection, limit reached.'',
                  Transport_stop transport] s)
             else
               (let s1 = tcp_emit
                      [Log_debug ''TCP connection manager accepted new tcp connection''] s;
                    connection = \<lparr>direction = direction_incoming\<rparr>;
                    s2 = s1\<lparr>m_tcp_connections :=
                            table_assign ep connection (m_tcp_connections s1)\<rparr>
                in (None, tcp_emit [Connection_start ep] s2))))"

text \<open>\<open>connect\<close>, with its boolean result.\<close>

definition connect ::
  "network_env \<Rightarrow> endpoint \<Rightarrow> tcp_connection_manager \<Rightarrow> bool \<times> tcp_connection_manager" where
  "connect env ep s =
     (if is_address_banned env (address ep) then
        (False,
         tcp_emit [Log_info
           ''TCP connection manager tried to connect to a banned address''] s)
      else if table_find (m_tcp_connections s) ep = None then
        (let s1 = tcp_emit [On_connection_attempt (from_endpoint env ep)] s;
             connection = \<lparr>direction = direction_outgoing\<rparr>;
             s2 = s1\<lparr>m_tcp_connections :=
                     table_assign ep connection (m_tcp_connections s1)\<rparr>
         in (True, tcp_emit [Connection_start_to ep] s2))
      else (False, s))"

subsection \<open>The maintenance tick\<close>

text \<open>The first loop of \<open>tick\<close>: entries that are dead or invalid leave the table.\<close>

fun tick_prune :: "network_env \<Rightarrow> connection_table \<Rightarrow> connection_table \<times> event list" where
  "tick_prune env [] = ([], [])"
| "tick_prune env ((k, c) # t) =
     (let (t', es) = tick_prune env t in
      if connection_lock env k then
        (if is_transport_valid env k then ((k, c) # t', es)
         else (t', Connection_stop k # es))
      else (t', es))"

text \<open>
  The loop that sets \<open>is_in_same_group\<close>: it looks at every entry whose connection and
  transport are alive and whose remote endpoint can be read, and has no \<open>break\<close>.
\<close>

fun same_group_scan ::
  "network_env \<Rightarrow> network_address_t \<Rightarrow> connection_table \<Rightarrow> bool \<Rightarrow> bool" where
  "same_group_scan env addr [] is_in_same_group = is_in_same_group"
| "same_group_scan env addr ((k, c) # t) is_in_same_group =
     same_group_scan env addr t
       (if connection_lock env k then
          (case get_tcp_transport env k of
             None \<Rightarrow> is_in_same_group
           | Some transport \<Rightarrow>
               (case socket_remote_endpoint transport of
                  None \<Rightarrow> is_in_same_group
                | Some rep \<Rightarrow>
                    if group env addr = group env (from_endpoint env rep) then True
                    else is_in_same_group))
        else is_in_same_group)"

text \<open>
  What one iteration of the top-up loop does with its candidate: nothing, a log line, or a
  call of \<open>connect\<close>.
\<close>

datatype candidate_action =
  Candidate_skipped | Candidate_too_soon | Candidate_connect endpoint

definition tick_decide ::
  "network_env \<Rightarrow> connection_table \<Rightarrow> network_address_t \<Rightarrow> 64 word \<Rightarrow> candidate_action" where
  "tick_decide env t addr now =
     (let is_in_same_group = same_group_scan env addr t False in
      if is_valid env addr = False \<or> is_local env addr \<or> is_in_same_group
      then Candidate_skipped
      else if now - last_try addr < 600 then Candidate_too_soon
      else Candidate_connect
             \<lparr>address = ipv4_mapped_address env addr, port = na_port addr\<rparr>)"

definition tick_candidate :: "network_env \<Rightarrow> tcp_connection_manager \<Rightarrow> nat \<Rightarrow> network_address_t" where
  "tick_candidate env s i =
     select env i (10 + min (length (m_tcp_connections s)) 8 * 10)"

definition tick_attempt ::
  "network_env \<Rightarrow> nat \<Rightarrow> tcp_connection_manager \<Rightarrow> tcp_connection_manager" where
  "tick_attempt env i s =
     (let addr = tick_candidate env s i in
      case tick_decide env (m_tcp_connections s) addr (get_adjusted env i) of
        Candidate_skipped \<Rightarrow> s
      | Candidate_too_soon \<Rightarrow>
          tcp_emit [Log_debug
            ''TCP connection manager attempted to connect too soon''] s
      | Candidate_connect ep \<Rightarrow>
          (let (ok, s1) = connect env ep s in
           if ok then tcp_emit [Log_debug ''TCP connection manager is connecting''] s1
           else s1))"

text \<open>
  The top-up loop \<open>for (auto i = 0; i < minimum_tcp_connections - m_tcp_connections.size();
  i++)\<close>. The bound is computed in \<open>std::size_t\<close> (64 bits) and read again before every
  iteration. The constant \<open>minimum_tcp_connections\<close> is declared in the header and is a
  parameter.
\<close>

definition topup_bound :: "nat \<Rightarrow> tcp_connection_manager \<Rightarrow> nat" where
  "topup_bound minimum_tcp_connections s =
     (minimum_tcp_connections + 2 ^ 64 - length (m_tcp_connections s) mod 2 ^ 64) mod 2 ^ 64"

function tick_topup ::
  "network_env \<Rightarrow> nat \<Rightarrow> nat \<Rightarrow> tcp_connection_manager \<Rightarrow> tcp_connection_manager" where
  "tick_topup env minimum_tcp_connections i s =
     (if i < topup_bound minimum_tcp_connections s
      then tick_topup env minimum_tcp_connections (i + 1) (tick_attempt env i s)
      else s)"
  by pat_completeness auto
termination
  by (relation "measure (\<lambda>(env, m, i, s). 2 ^ 64 - i)") (auto simp: topup_bound_def)

declare tick_topup.simps [simp del]

definition tick ::
  "network_env \<Rightarrow> nat \<Rightarrow> bool \<Rightarrow> tcp_connection_manager \<Rightarrow> tcp_connection_manager" where
  "tick env minimum_tcp_connections ec s =
     (if ec then s
      else
        (let (t, stops) = tick_prune env (m_tcp_connections s);
             s1 = tcp_emit stops (s\<lparr>m_tcp_connections := t\<rparr>);
             s2 = (if length (m_tcp_connections s1) < minimum_tcp_connections + 1
                   then tcp_emit [Timer_expires_from_now 8]
                          (tick_topup env minimum_tcp_connections 0 s1)
                   else tcp_emit [Timer_expires_from_now 8] s1)
         in tcp_emit
              [Status_insert_network
                 (if 0 < length (m_tcp_connections s2) then ''Connected'' else ''Connecting'')
                 (length (m_tcp_connections s2))] s2))"

subsection \<open>Resolving the bootstrap nodes\<close>

text \<open>
  \<open>do_resolve\<close>. The handler given to \<open>async_resolve\<close> runs when the resolver answers; the
  model runs it at once. \<open>queries.front()\<close> of an empty vector and the failing \<open>assert\<close> end
  the call with an error.
\<close>

definition loopback_source :: endpoint where
  "loopback_source = \<lparr>address = 0x7F000001, port = 0\<rparr>"

fun do_resolve ::
  "network_env \<Rightarrow> (string \<times> 16 word) list \<Rightarrow> tcp_connection_manager
     \<Rightarrow> error + tcp_connection_manager" where
  "do_resolve env [] s =
     (if \<not> length ([] :: (string \<times> 16 word) list) \<le> 100 then Inl Assertion_failed
      else Inl Vector_front_on_empty)"
| "do_resolve env (q # tmp) s =
     (if \<not> length (q # tmp) \<le> 100 then Inl Assertion_failed
      else
        (let s1 = tcp_emit [Async_resolve q] s;
             s2 = (case resolve env q of
                     None \<Rightarrow> s1
                   | Some ep \<Rightarrow>
                       tcp_emit [Log_debug ''TCP connection manager resolved'',
                         Address_manager_add (from_endpoint env ep)
                           (from_endpoint env loopback_source)] s1)
         in
           if 0 < length (q # tmp) then
             (if 0 < length tmp then do_resolve env tmp s2 else Inr s2)
           else Inr s2))"

text \<open>
  \<open>std::random_shuffle\<close>: for every position from the second on, the element is swapped
  with the one at a random position not after it.
\<close>

definition swap_at :: "nat \<Rightarrow> nat \<Rightarrow> 'a list \<Rightarrow> 'a list" where
  "swap_at i j xs = (xs[i := xs ! j])[j := xs ! i]"

definition random_shuffle :: "(nat \<Rightarrow> nat) \<Rightarrow> 'a list \<Rightarrow> 'a list" where
  "random_shuffle rnd xs =
     fold (\<lambda>i ys. swap_at i (rnd i mod (i + 1)) ys) [1..<length xs] xs"

definition tcp_connection_manager_start ::
  "network_env \<Rightarrow> configuration \<Rightarrow> tcp_connection_manager
     \<Rightarrow> error + tcp_connection_manager" where
  "tcp_connection_manager_start env cfg s =
     (let queries = map (\<lambda>i. (fst i, snd i)) (bootstrap_nodes cfg);
          queries' = random_shuffle (rand env) queries
      in case do_resolve env queries' s of
           Inl e \<Rightarrow> Inl e
         | Inr s1 \<Rightarrow> Inr (tcp_emit [Timer_expires_from_now 1] s1))"

subsection \<open>Observations on traces and tables\<close>

text \<open>
  The events of a trace that are no log lines, the endpoints of the outgoing connections a
  trace starts, and the group of every entry of a table, by its key.
\<close>

fun non_log_events :: "event list \<Rightarrow> event list" where
  "non_log_events [] = []"
| "non_log_events (Log_error m # es) = non_log_events es"
| "non_log_events (Log_info m # es) = non_log_events es"
| "non_log_events (Log_debug m # es) = non_log_events es"
| "non_log_events (e # es) = e # non_log_events es"

fun connection_starts :: "event list \<Rightarrow> endpoint list" where
  "connection_starts [] = []"
| "connection_starts (Connection_start_to ep # es) = ep # connection_starts es"
| "connection_starts (_ # es) = connection_starts es"

definition table_groups :: "network_env \<Rightarrow> connection_table \<Rightarrow> nat list" where
  "table_groups env t = map (\<lambda>(k, c). group env (from_endpoint env k)) t"

subsection \<open>Concrete environments\<close>

text \<open>
  An environment for concrete runs. Nothing is banned; every weak pointer can be locked and
  every transport is valid and reports the key of its entry as remote endpoint. Addresses
  are IPv4 numbers, the group of an address is its first two bytes, \<open>127.x.x.x\<close> is local
  and \<open>0.0.0.0\<close> invalid. The address manager offers \<open>20.0.0.1\<close>, \<open>21.0.0.1\<close>, and so
  on, never tried before; the adjusted time is 100000.
\<close>

definition example_network_env :: network_env where
  "example_network_env =
     \<lparr>is_address_banned = (\<lambda>a. False),
      connection_lock = (\<lambda>k. True),
      is_transport_valid = (\<lambda>k. True),
      get_tcp_transport = (\<lambda>k. Some \<lparr>socket_remote_endpoint = Some k\<rparr>),
      from_endpoint = (\<lambda>ep. \<lparr>na_address = address ep, na_port = port ep,
                              na_timestamp = 0, last_try = 0\<rparr>),
      ipv4_mapped_address = na_address,
      is_valid = (\<lambda>a. na_address a \<noteq> 0),
      is_local = (\<lambda>a. na_address a div 0x1000000 = 127),
      group = (\<lambda>a. na_address a div 0x10000),
      select = (\<lambda>i bias. \<lparr>na_address = (20 + i) * 0x1000000 + 1, na_port = 8333,
                             na_timestamp = 0, last_try = 0\<rparr>),
      get_adjusted = (\<lambda>i. 100000),
      resolve = (\<lambda>q. None),
      rand = (\<lambda>i. 0)\<rparr>"

definition example_transport :: "nat \<Rightarrow> tcp_transport" where
  "example_transport a = \<lparr>socket_remote_endpoint = Some \<lparr>address = a, port = 5000\<rparr>\<rparr>"

definition accept_two :: tcp_connection_manager where
  "accept_two =
     snd (handle_accept example_network_env example_configuration
            (example_transport 0x0A000002)
            (snd (handle_accept example_network_env example_configuration
                    (example_transport 0x0A000001) tcp_connection_manager_init)))"


text \<open>
  Variants: an address manager that offers an address tried 100 seconds ago; one that
  offers \<open>10.0.5.5\<close>; and one that offers \<open>10.0.0.1\<close>, \<open>10.0.0.2\<close>, and so on, while the
  sockets of the table's transports have no remote endpoint yet.
\<close>

definition example_recent_env :: network_env where
  "example_recent_env =
     example_network_env\<lparr>select := (\<lambda>i bias. \<lparr>na_address = 0x14000001, na_port = 8333,
                                               na_timestamp = 0, last_try = 99900\<rparr>)\<rparr>"

definition example_same_group_env :: network_env where
  "example_same_group_env =
     example_network_env\<lparr>select := (\<lambda>i bias. \<lparr>na_address = 0x0A000505, na_port = 8333,
                                               na_timestamp = 0, last_try = 0\<rparr>)\<rparr>"

definition example_connecting_env :: network_env where
  "example_connecting_env =
     example_network_env
       \<lparr>get_tcp_transport := (\<lambda>k. Some \<lparr>socket_remote_endpoint = None\<rparr>),
        select := (\<lambda>i bias. \<lparr>na_address = 0x0A000001 + i, na_port = 8333,
                              na_timestamp = 0, last_try = 0\<rparr>)\<rparr>"



section \<open>Verification of the mining manager\<close>

lemma trace_emit [simp]: "mining_trace (emit es mm) = mining_trace mm @ es"
  by (simp add: emit_def)

lemma emit_fields [simp]:
  "m_state_pow (emit es mm) = m_state_pow mm"
  "m_state_pos (emit es mm) = m_state_pos mm"
  "m_hashes_per_second (emit es mm) = m_hashes_per_second mm"
  "m_hps_timer_start (emit es mm) = m_hps_timer_start mm"
  "threads (emit es mm) = threads mm"
  "thread_pos (emit es mm) = thread_pos mm"
  by (simp_all add: emit_def)

lemma pow_writes_append [simp]: "pow_writes (xs @ ys) = pow_writes xs @ pow_writes ys"
  by (induction xs rule: pow_writes.induct) simp_all


lemma join_threads_fields [simp]:
  "m_state_pow (join_threads ts mm) = m_state_pow mm"
  "m_state_pos (join_threads ts mm) = m_state_pos mm"
  "m_hashes_per_second (join_threads ts mm) = m_hashes_per_second mm"
  "m_hps_timer_start (join_threads ts mm) = m_hps_timer_start mm"
  "threads (join_threads ts mm) = threads mm"
  "thread_pos (join_threads ts mm) = thread_pos mm"
  by (induction ts mm rule: join_threads.induct) simp_all

lemma pow_writes_joins [simp]:
  "pow_writes (join_events ts) = []"
  by (induction ts) (simp_all add: join_events_def split: thread.splits)

lemma start_proof_of_work_startable:
  assumes "m_state_pow mm = state_pow_none \<or> m_state_pow mm = state_pow_stopped"
  shows "start_proof_of_work mm =
           mm\<lparr>m_state_pow := state_pow_started,
              threads := threads mm @ [Thread_loop False],
              mining_trace := mining_trace mm @
                [Set_state_pow state_pow_starting,
                 Log_info ''Mining manager is adding Proof-of-Work threads.'',
                 Thread_spawn False, Set_state_pow state_pow_started]\<rparr>"
  using assms by (auto simp: start_proof_of_work_def set_state_pow_def emit_def Let_def)




lemma start_proof_of_stake_pow_fields [simp]:
  "m_state_pow (start_proof_of_stake mm) = m_state_pow mm"
  "threads (start_proof_of_stake mm) = threads mm"
  by (simp_all add: start_proof_of_stake_def set_state_pos_def Let_def)

lemma stop_proof_of_stake_pow_fields [simp]:
  "m_state_pow (stop_proof_of_stake mm) = m_state_pow mm"
  "threads (stop_proof_of_stake mm) = threads mm"
  by (simp_all add: stop_proof_of_stake_def set_state_pos_def Let_def)


















lemma posted_blocks_append [simp]:
  "posted_blocks (xs @ ys) = posted_blocks xs @ posted_blocks ys"
  by (induction xs rule: posted_blocks.induct) simp_all

text \<open>
  Claim C1. When the block's \<open>hash_previous_block\<close> differs from the hash of the best chain,
  \<open>check_work\<close> returns with the wallet's request counters and the reserved key as they
  were, and posts no \<open>process_block\<close> task.
\<close>

theorem check_work_stale:
  assumes "hash_previous_block (header blk) \<noteq> hash_best_chain env"
  shows "fst (check_work env blk w reserve_key is_proof_of_stake mm) = w
       \<and> fst (snd (check_work env blk w reserve_key is_proof_of_stake mm)) = reserve_key
       \<and> posted_blocks (mining_trace (snd (snd
            (check_work env blk w reserve_key is_proof_of_stake mm))))
           = posted_blocks (mining_trace mm)"
  using assms by (simp add: check_work_def Let_def)

text \<open>Claim C1 on a block with parent 5 while the best chain's hash is 7.\<close>

theorem check_work_stale_witness:
  "hash_previous_block (header example_block) \<noteq> hash_best_chain example_mining_env
   \<and> check_work example_mining_env example_block \<lparr>request_counts = Map.empty\<rparr>
        \<lparr>key_kept = False\<rparr> False mining_manager_init
      = (\<lparr>request_counts = Map.empty\<rparr>, \<lparr>key_kept = False\<rparr>,
         mining_manager_init\<lparr>mining_trace :=
           [Log_debug ''Mining manager found new block'', Block_print example_block,
            Log_error ''Mining manager block is stale, dropping.'']\<rparr>)"
proof -
  have h: "hash_previous_block (header example_block) \<noteq> hash_best_chain example_mining_env"
    by (simp add: example_block_def example_mining_env_def)
  have "check_work example_mining_env example_block \<lparr>request_counts = Map.empty\<rparr>
        \<lparr>key_kept = False\<rparr> False mining_manager_init
      = (\<lparr>request_counts = Map.empty\<rparr>, \<lparr>key_kept = False\<rparr>,
         mining_manager_init\<lparr>mining_trace :=
           [Log_debug ''Mining manager found new block'', Block_print example_block,
            Log_error ''Mining manager block is stale, dropping.'']\<rparr>)"
    by (simp add: check_work_def example_block_def example_mining_env_def Let_def emit_def
        mining_manager_init_def)
  with h check_work_stale [OF h] show ?thesis by simp
qed

lemma word32_succ:
  "(n :: 32 word) \<noteq> - 1 \<Longrightarrow> n < n + 1 \<and> unat (n + 1) = unat n + 1"
  by (metis inc_less_eq_self_iff_eq nless_le unat_plus_simple unsigned_1
    verit_comp_simplify1(3))

text \<open>
  Claim C2, as amended. On a block with a coinbase input whose new script passes the size
  assertion, \<open>increment_extra_nonce\<close> returns, remembers the block's parent hash and embeds
  the new counter in the coinbase script. When the parent hash is the remembered one the
  new counter is the old one plus one modulo \<open>2 ^ 32\<close>, a strict increase by one unless the
  old counter is \<open>0xFFFFFFFF\<close>; when the parent hash differs the new counter is 1.
\<close>

theorem increment_extra_nonce_counter:
  "transactions blk = tx # txs \<Longrightarrow> transactions_in tx = tin # tins \<Longrightarrow>
   n' = (if hash_previous st = hash_previous_block (header blk)
         then extra_nonce st + 1 else 1) \<Longrightarrow>
   script_size env
     ([Push_height (height index_previous + 1), Push_big_number n'] @ coinbase_flags env)
     \<le> 100 \<Longrightarrow>
   (\<exists>blk'. increment_extra_nonce env blk index_previous st
             = Inr (blk', \<lparr>hash_previous = hash_previous_block (header blk),
                          extra_nonce = n'\<rparr>)
          \<and> transactions blk' =
              tx\<lparr>transactions_in := tin\<lparr>script_signature :=
                  [Push_height (height index_previous + 1), Push_big_number n']
                    @ coinbase_flags env\<rparr> # tins\<rparr> # txs)
   \<and> (hash_previous st = hash_previous_block (header blk) \<and> extra_nonce st \<noteq> 0xFFFFFFFF
        \<longrightarrow> extra_nonce st < n' \<and> unat n' = unat (extra_nonce st) + 1)
   \<and> (hash_previous st \<noteq> hash_previous_block (header blk) \<longrightarrow> n' = 1)"
proof -
  assume tx: "transactions blk = tx # txs" and tin: "transactions_in tx = tin # tins"
    and n': "n' = (if hash_previous st = hash_previous_block (header blk)
         then extra_nonce st + 1 else 1)"
    and size: "script_size env
     ([Push_height (height index_previous + 1), Push_big_number n'] @ coinbase_flags env)
     \<le> 100"
  have run: "\<exists>blk'. increment_extra_nonce env blk index_previous st
             = Inr (blk', \<lparr>hash_previous = hash_previous_block (header blk),
                          extra_nonce = n'\<rparr>)
          \<and> transactions blk' =
              tx\<lparr>transactions_in := tin\<lparr>script_signature :=
                  [Push_height (height index_previous + 1), Push_big_number n']
                    @ coinbase_flags env\<rparr> # tins\<rparr> # txs"
  proof (cases "hash_previous st = hash_previous_block (header blk)")
    case True
    with tx tin n' size show ?thesis
      by (cases st) (simp add: increment_extra_nonce_def Let_def)
  next
    case False
    with tx tin n' size show ?thesis
      by (simp add: increment_extra_nonce_def Let_def)
  qed
  have e: "(- 1 :: 32 word) = 0xFFFFFFFF" by simp
  have up: "hash_previous st = hash_previous_block (header blk)
        \<and> extra_nonce st \<noteq> 0xFFFFFFFF
        \<longrightarrow> extra_nonce st < n' \<and> unat n' = unat (extra_nonce st) + 1"
    using n' word32_succ [of "extra_nonce st", unfolded e] by simp
  have reset: "hash_previous st \<noteq> hash_previous_block (header blk) \<longrightarrow> n' = 1"
    using n' by simp
  from run up reset show ?thesis by blast
qed

text \<open>The amended claim C2 at counter 41, with the same parent and with a new parent.\<close>

theorem increment_extra_nonce_counter_witness:
  "map_sum id snd (increment_extra_nonce example_mining_env example_block \<lparr>height = 10\<rparr>
       \<lparr>hash_previous = 5, extra_nonce = 41\<rparr>)
     = Inr \<lparr>hash_previous = 5, extra_nonce = 42\<rparr>
   \<and> map_sum id snd (increment_extra_nonce example_mining_env example_block \<lparr>height = 10\<rparr>
       \<lparr>hash_previous = 4, extra_nonce = 41\<rparr>)
     = Inr \<lparr>hash_previous = 5, extra_nonce = 1\<rparr>
   \<and> (41 :: 32 word) < 42"
  using increment_extra_nonce_counter [of example_block
      "\<lparr>transactions_in = [\<lparr>script_signature = []\<rparr>]\<rparr>" "[]" "\<lparr>script_signature = []\<rparr>" "[]"
      42 "\<lparr>hash_previous = 5, extra_nonce = 41\<rparr>" example_mining_env "\<lparr>height = 10\<rparr>"]
    increment_extra_nonce_counter [of example_block
      "\<lparr>transactions_in = [\<lparr>script_signature = []\<rparr>]\<rparr>" "[]" "\<lparr>script_signature = []\<rparr>" "[]"
      1 "\<lparr>hash_previous = 4, extra_nonce = 41\<rparr>" example_mining_env "\<lparr>height = 10\<rparr>"]
  by (auto simp: example_block_def example_mining_env_def)

text \<open>
  Claim C2 as stated fails at the counter \<open>0xFFFFFFFF\<close>: with an unchanged parent hash the
  call returns the counter 0, which is not greater.
\<close>

theorem extra_nonce_wrap_counterexample:
  "hash_previous \<lparr>hash_previous = 5, extra_nonce = 0xFFFFFFFF\<rparr>
     = hash_previous_block (header example_block)
   \<and> map_sum id snd (increment_extra_nonce example_mining_env example_block \<lparr>height = 10\<rparr>
       \<lparr>hash_previous = 5, extra_nonce = 0xFFFFFFFF\<rparr>)
     = Inr \<lparr>hash_previous = 5, extra_nonce = 0\<rparr>
   \<and> \<not> (0xFFFFFFFF :: 32 word) < 0"
  by (simp add: increment_extra_nonce_def example_block_def example_mining_env_def Let_def)

lemma start_proof_of_work_pos_fields [simp]:
  "m_state_pos (start_proof_of_work mm) = m_state_pos mm"
  "thread_pos (start_proof_of_work mm) = thread_pos mm"
  by (simp_all add: start_proof_of_work_def set_state_pow_def Let_def)

lemma start_proof_of_stake_startable:
  "m_state_pos mm = state_pos_none \<or> m_state_pos mm = state_pos_stopped \<Longrightarrow>
   m_state_pos (start_proof_of_stake mm) = state_pos_started
   \<and> thread_pos (start_proof_of_stake mm) = Some (Thread_loop True)"
  by (auto simp: start_proof_of_stake_def set_state_pos_def Let_def)

text \<open>
  Claim C9. With a \<open>mine-cpu\<close> value that \<open>std::stoi\<close> reads as a number above 0,
  \<open>mining_manager::start\<close> runs \<open>start_proof_of_work\<close> after \<open>start_proof_of_stake\<close>, and when
  proof-of-work is not already running exactly one worker thread is added, whatever the
  number is. With the value 0 or below, or without the argument, the proof-of-work threads
  and state stay as they were. In every case, also when \<open>std::stoi\<close> throws, the
  proof-of-stake state and thread are those that \<open>start_proof_of_stake\<close> leaves.
\<close>

theorem start_mine_cpu:
  "(args cfg ''mine-cpu'' = Some v \<and> stoi v = Some n \<and> 0 < n \<longrightarrow>
      mining_manager_start stoi cfg mm
        = (None, start_proof_of_work (start_proof_of_stake mm))
      \<and> (m_state_pow mm = state_pow_none \<or> m_state_pow mm = state_pow_stopped \<longrightarrow>
           threads (snd (mining_manager_start stoi cfg mm))
             = threads mm @ [Thread_loop False]
           \<and> m_state_pow (snd (mining_manager_start stoi cfg mm)) = state_pow_started))
   \<and> (args cfg ''mine-cpu'' = None
        \<or> args cfg ''mine-cpu'' = Some v \<and> stoi v = Some n \<and> n \<le> 0 \<longrightarrow>
      mining_manager_start stoi cfg mm = (None, start_proof_of_stake mm)
      \<and> threads (snd (mining_manager_start stoi cfg mm)) = threads mm
      \<and> m_state_pow (snd (mining_manager_start stoi cfg mm)) = m_state_pow mm)
   \<and> m_state_pos (snd (mining_manager_start stoi cfg mm))
        = m_state_pos (start_proof_of_stake mm)
   \<and> thread_pos (snd (mining_manager_start stoi cfg mm))
        = thread_pos (start_proof_of_stake mm)
   \<and> (m_state_pos mm = state_pos_none \<or> m_state_pos mm = state_pos_stopped \<longrightarrow>
        m_state_pos (snd (mining_manager_start stoi cfg mm)) = state_pos_started
        \<and> thread_pos (snd (mining_manager_start stoi cfg mm)) = Some (Thread_loop True))"
proof -
  have pos1: "m_state_pos (snd (mining_manager_start stoi cfg mm))
        = m_state_pos (start_proof_of_stake mm)"
    by (simp add: mining_manager_start_def Let_def split: option.splits)
  have pos2: "thread_pos (snd (mining_manager_start stoi cfg mm))
        = thread_pos (start_proof_of_stake mm)"
    by (simp add: mining_manager_start_def Let_def split: option.splits)
  have pos3: "m_state_pos mm = state_pos_none \<or> m_state_pos mm = state_pos_stopped \<longrightarrow>
        m_state_pos (snd (mining_manager_start stoi cfg mm)) = state_pos_started
        \<and> thread_pos (snd (mining_manager_start stoi cfg mm)) = Some (Thread_loop True)"
    using start_proof_of_stake_startable [of mm] by (simp add: pos1 pos2)
  have on: "args cfg ''mine-cpu'' = Some v \<and> stoi v = Some n \<and> 0 < n \<longrightarrow>
      mining_manager_start stoi cfg mm
        = (None, start_proof_of_work (start_proof_of_stake mm))
      \<and> (m_state_pow mm = state_pow_none \<or> m_state_pow mm = state_pow_stopped \<longrightarrow>
           threads (snd (mining_manager_start stoi cfg mm))
             = threads mm @ [Thread_loop False]
           \<and> m_state_pow (snd (mining_manager_start stoi cfg mm)) = state_pow_started)"
    by (auto simp: mining_manager_start_def Let_def start_proof_of_work_startable)
  have off: "args cfg ''mine-cpu'' = None
        \<or> args cfg ''mine-cpu'' = Some v \<and> stoi v = Some n \<and> n \<le> 0 \<longrightarrow>
      mining_manager_start stoi cfg mm = (None, start_proof_of_stake mm)
      \<and> threads (snd (mining_manager_start stoi cfg mm)) = threads mm
      \<and> m_state_pow (snd (mining_manager_start stoi cfg mm)) = m_state_pow mm"
    by (auto simp: mining_manager_start_def Let_def)
  show ?thesis
    apply (intro conjI)
        apply (rule on)
       apply (rule off)
      apply (rule pos1)
     apply (rule pos2)
    apply (rule pos3)
    done
qed

text \<open>
  Claim C9 on a fresh manager: with \<open>mine-cpu\<close> 4 one worker thread runs, with \<open>mine-cpu\<close> 0
  none, and proof-of-stake is started in both.
\<close>

theorem start_mine_cpu_witness:
  "args example_configuration ''mine-cpu'' = Some ''4'' \<and> example_stoi ''4'' = Some 4
   \<and> (0 :: int) < 4
   \<and> m_state_pow mining_manager_init = state_pow_none
   \<and> m_state_pos mining_manager_init = state_pos_none
   \<and> threads (snd (mining_manager_start example_stoi example_configuration
         mining_manager_init)) = [Thread_loop False]
   \<and> m_state_pow (snd (mining_manager_start example_stoi example_configuration
         mining_manager_init)) = state_pow_started
   \<and> m_state_pos (snd (mining_manager_start example_stoi example_configuration
         mining_manager_init)) = state_pos_started
   \<and> args (example_configuration\<lparr>m_args := [''mine-cpu'' \<mapsto> ''0'']\<rparr>) ''mine-cpu''
        = Some ''0''
   \<and> example_stoi ''0'' = Some 0
   \<and> threads (snd (mining_manager_start example_stoi
         (example_configuration\<lparr>m_args := [''mine-cpu'' \<mapsto> ''0'']\<rparr>)
         mining_manager_init)) = []
   \<and> m_state_pos (snd (mining_manager_start example_stoi
         (example_configuration\<lparr>m_args := [''mine-cpu'' \<mapsto> ''0'']\<rparr>)
         mining_manager_init)) = state_pos_started"
  using start_mine_cpu [of example_configuration "''4''" example_stoi 4 mining_manager_init]
    start_mine_cpu [of "example_configuration\<lparr>m_args := [''mine-cpu'' \<mapsto> ''0'']\<rparr>"
      "''0''" example_stoi 0 mining_manager_init]
  by (simp add: example_configuration_def example_stoi_def args_def mining_manager_init_def
      mining_manager_start_def start_proof_of_stake_def start_proof_of_work_def
      set_state_pow_def set_state_pos_def emit_def Let_def)

section \<open>Verification of the connection manager\<close>

lemma tcp_emit_simps [simp]:
  "tcp_trace (tcp_emit es s) = tcp_trace s @ es"
  "m_tcp_connections (tcp_emit es s) = m_tcp_connections s"
  by (simp_all add: tcp_emit_def)

lemma non_log_events_append [simp]:
  "non_log_events (xs @ ys) = non_log_events xs @ non_log_events ys"
  by (induction xs rule: non_log_events.induct) simp_all

lemma is_duplicate_scan_None:
  "socket_remote_endpoint transport = None \<Longrightarrow> is_duplicate_scan transport t = False"
  by (induction t) auto

lemma is_duplicate_scan_Some:
  "socket_remote_endpoint transport = Some ep \<Longrightarrow>
   is_duplicate_scan transport t \<longleftrightarrow> (\<exists>k c. (k, c) \<in> set t \<and> address k = address ep)"
  by (induction t) (auto split: if_splits)

lemma length_table_assign: "length (table_assign k v t) \<le> Suc (length t)"
  by (induction t) auto

lemma accept_two_eq:
  "accept_two =
     \<lparr>m_tcp_connections =
        [(\<lparr>address = 0x0A000001, port = 5000\<rparr>, \<lparr>direction = direction_incoming\<rparr>),
         (\<lparr>address = 0x0A000002, port = 5000\<rparr>, \<lparr>direction = direction_incoming\<rparr>)],
      tcp_trace =
        [Log_debug ''TCP connection manager accepted new tcp connection'',
         Connection_start \<lparr>address = 0x0A000001, port = 5000\<rparr>,
         Log_debug ''TCP connection manager accepted new tcp connection'',
         Connection_start \<lparr>address = 0x0A000002, port = 5000\<rparr>]\<rparr>"
  by (simp add: accept_two_def handle_accept_def example_network_env_def
      example_configuration_def example_transport_def tcp_connection_manager_init_def
      network_tcp_inbound_maximum_def tcp_emit_def endpoint_less_def Let_def)

text \<open>
  Claim C3. When the table holds an entry whose key has the IP address of the transport's
  remote endpoint, whatever the ports, \<open>handle_accept\<close> logs, stops the transport and
  returns; the table is the one before the call.
\<close>

theorem handle_accept_duplicate_ip:
  "(k, c) \<in> set (m_tcp_connections s) \<Longrightarrow> socket_remote_endpoint transport = Some ep \<Longrightarrow>
   address ep = address k \<Longrightarrow>
   handle_accept env cfg transport s
     = (None,
        s\<lparr>tcp_trace := tcp_trace s @
             [Log_error ''TCP connection manager is dropping duplicate IP connection'',
              Transport_stop transport]\<rparr>)
   \<and> m_tcp_connections (snd (handle_accept env cfg transport s)) = m_tcp_connections s"
proof -
  assume "(k, c) \<in> set (m_tcp_connections s)" "socket_remote_endpoint transport = Some ep"
    "address ep = address k"
  then have "is_duplicate_scan transport (m_tcp_connections s)"
    using is_duplicate_scan_Some [of transport ep "m_tcp_connections s"] by auto
  then show ?thesis by (simp add: handle_accept_def tcp_emit_def)
qed

text \<open>
  Claim C3 on the table of two accepted peers and a second socket of \<open>10.0.0.1\<close>, from port
  6000.
\<close>

theorem handle_accept_duplicate_ip_witness:
  "(\<lparr>address = 0x0A000001, port = 5000\<rparr>, \<lparr>direction = direction_incoming\<rparr>)
     \<in> set (m_tcp_connections accept_two)
   \<and> socket_remote_endpoint \<lparr>socket_remote_endpoint = Some \<lparr>address = 0x0A000001, port = 6000\<rparr>\<rparr>
       = Some \<lparr>address = 0x0A000001, port = 6000\<rparr>
   \<and> address \<lparr>address = 0x0A000001, port = 6000\<rparr> = address \<lparr>address = 0x0A000001, port = 5000\<rparr>
   \<and> handle_accept example_network_env example_configuration
         \<lparr>socket_remote_endpoint = Some \<lparr>address = 0x0A000001, port = 6000\<rparr>\<rparr> accept_two
       = (None, accept_two\<lparr>tcp_trace := tcp_trace accept_two @
             [Log_error ''TCP connection manager is dropping duplicate IP connection'',
              Transport_stop
                \<lparr>socket_remote_endpoint = Some \<lparr>address = 0x0A000001, port = 6000\<rparr>\<rparr>]\<rparr>)"
  using handle_accept_duplicate_ip [of "\<lparr>address = 0x0A000001, port = 5000\<rparr>"
      "\<lparr>direction = direction_incoming\<rparr>" accept_two
      "\<lparr>socket_remote_endpoint = Some \<lparr>address = 0x0A000001, port = 6000\<rparr>\<rparr>"
      "\<lparr>address = 0x0A000001, port = 6000\<rparr>" example_network_env example_configuration]
  by (simp add: accept_two_eq)

text \<open>
  Claim C4. For a banned address \<open>connect\<close> returns false and the state is the one before
  the call with one info log line added. For an endpoint that is in the table and not
  banned it returns false and the state is the one before the call. In both cases the
  table is unchanged and the trace gains no event that is not a log line, so
  \<open>on_connection_attempt\<close> is not called.
\<close>

theorem connect_rejects:
  "(is_address_banned env (address ep) \<longrightarrow>
      connect env ep s
        = (False,
           s\<lparr>tcp_trace := tcp_trace s @
              [Log_info ''TCP connection manager tried to connect to a banned address'']\<rparr>))
   \<and> (table_find (m_tcp_connections s) ep \<noteq> None \<and> \<not> is_address_banned env (address ep)
        \<longrightarrow> connect env ep s = (False, s))
   \<and> (is_address_banned env (address ep) \<or> table_find (m_tcp_connections s) ep \<noteq> None
        \<longrightarrow> fst (connect env ep s) = False
          \<and> m_tcp_connections (snd (connect env ep s)) = m_tcp_connections s
          \<and> non_log_events (tcp_trace (snd (connect env ep s)))
              = non_log_events (tcp_trace s))"
  by (auto simp: connect_def tcp_emit_def)

text \<open>Claim C4 on a banned address and on an endpoint of the table.\<close>

theorem connect_rejects_witness:
  "is_address_banned (example_network_env\<lparr>is_address_banned := (\<lambda>a. a = 0x0A000005)\<rparr>)
     (address \<lparr>address = 0x0A000005, port = 8333\<rparr>)
   \<and> connect (example_network_env\<lparr>is_address_banned := (\<lambda>a. a = 0x0A000005)\<rparr>)
        \<lparr>address = 0x0A000005, port = 8333\<rparr> accept_two
      = (False, accept_two\<lparr>tcp_trace := tcp_trace accept_two @
           [Log_info ''TCP connection manager tried to connect to a banned address'']\<rparr>)
   \<and> table_find (m_tcp_connections accept_two) \<lparr>address = 0x0A000002, port = 5000\<rparr>
       = Some \<lparr>direction = direction_incoming\<rparr>
   \<and> connect example_network_env \<lparr>address = 0x0A000002, port = 5000\<rparr> accept_two
       = (False, accept_two)"
  using connect_rejects [of "example_network_env\<lparr>is_address_banned := (\<lambda>a. a = 0x0A000005)\<rparr>"
      "\<lparr>address = 0x0A000005, port = 8333\<rparr>" accept_two]
    connect_rejects [of example_network_env "\<lparr>address = 0x0A000002, port = 5000\<rparr>" accept_two]
  by (simp add: accept_two_eq example_network_env_def table_find_def)

lemma handle_accept_length:
  "length (m_tcp_connections (snd (handle_accept env cfg transport s)))
     \<le> max (length (m_tcp_connections s)) (network_tcp_inbound_maximum cfg)"
proof (cases "\<exists>ep. socket_remote_endpoint transport = Some ep
    \<and> \<not> is_duplicate_scan transport (m_tcp_connections s)
    \<and> \<not> is_address_banned env (address ep)
    \<and> \<not> network_tcp_inbound_maximum cfg \<le> length (m_tcp_connections s)")
  case True
  then obtain ep where ep: "socket_remote_endpoint transport = Some ep"
    "\<not> is_duplicate_scan transport (m_tcp_connections s)"
    "\<not> is_address_banned env (address ep)"
    "\<not> network_tcp_inbound_maximum cfg \<le> length (m_tcp_connections s)"
    by blast
  then have "m_tcp_connections (snd (handle_accept env cfg transport s))
      = table_assign ep \<lparr>direction = direction_incoming\<rparr> (m_tcp_connections s)"
    by (simp add: handle_accept_def Let_def)
  moreover have "length (table_assign ep \<lparr>direction = direction_incoming\<rparr> (m_tcp_connections s))
      \<le> Suc (length (m_tcp_connections s))"
    by (rule length_table_assign)
  ultimately show ?thesis using ep(4) by simp
next
  case False
  then have "m_tcp_connections (snd (handle_accept env cfg transport s)) = m_tcp_connections s"
    by (auto simp: handle_accept_def Let_def split: option.splits)
  then show ?thesis by simp
qed

text \<open>
  The capacity test of \<open>handle_accept\<close>. When the remote endpoint of the transport can be
  read and the table's size has reached the inbound maximum, \<open>handle_accept\<close> returns,
  leaves the table as it is and, log lines apart, does one thing: it stops the transport.
  For every call, a table that has reached the inbound maximum gains no entry, and a table
  within the inbound maximum stays within it.
\<close>

lemma handle_accept_capacity:
  "(socket_remote_endpoint transport = Some ep
      \<and> network_tcp_inbound_maximum cfg \<le> length (m_tcp_connections s) \<longrightarrow>
      fst (handle_accept env cfg transport s) = None
      \<and> m_tcp_connections (snd (handle_accept env cfg transport s)) = m_tcp_connections s
      \<and> non_log_events (tcp_trace (snd (handle_accept env cfg transport s)))
          = non_log_events (tcp_trace s) @ [Transport_stop transport])
   \<and> (network_tcp_inbound_maximum cfg \<le> length (m_tcp_connections s) \<longrightarrow>
        m_tcp_connections (snd (handle_accept env cfg transport s)) = m_tcp_connections s)
   \<and> (length (m_tcp_connections s) \<le> network_tcp_inbound_maximum cfg \<longrightarrow>
        length (m_tcp_connections (snd (handle_accept env cfg transport s)))
          \<le> network_tcp_inbound_maximum cfg)"
proof -
  have a: "socket_remote_endpoint transport = Some ep
      \<and> network_tcp_inbound_maximum cfg \<le> length (m_tcp_connections s) \<longrightarrow>
      fst (handle_accept env cfg transport s) = None
      \<and> m_tcp_connections (snd (handle_accept env cfg transport s)) = m_tcp_connections s
      \<and> non_log_events (tcp_trace (snd (handle_accept env cfg transport s)))
          = non_log_events (tcp_trace s) @ [Transport_stop transport]"
    by (simp add: handle_accept_def Let_def)
  have b: "length (m_tcp_connections s) \<le> network_tcp_inbound_maximum cfg \<longrightarrow>
        length (m_tcp_connections (snd (handle_accept env cfg transport s)))
          \<le> network_tcp_inbound_maximum cfg"
    using handle_accept_length [of env cfg transport s] by auto
  have c: "network_tcp_inbound_maximum cfg \<le> length (m_tcp_connections s) \<longrightarrow>
        m_tcp_connections (snd (handle_accept env cfg transport s)) = m_tcp_connections s"
    by (simp add: handle_accept_def Let_def split: option.splits)
  from a b c show ?thesis by blast
qed

text \<open>
  The scenario of the specification: inbound maximum 2, two peers accepted, a third one
  rejected.
\<close>

lemma handle_accept_capacity_scenario:
  "socket_remote_endpoint (example_transport 0x0A000003)
     = Some \<lparr>address = 0x0A000003, port = 5000\<rparr>
   \<and> network_tcp_inbound_maximum example_configuration = 2
   \<and> length (m_tcp_connections accept_two) = 2
   \<and> fst (handle_accept example_network_env example_configuration
         (example_transport 0x0A000003) accept_two) = None
   \<and> m_tcp_connections (snd (handle_accept example_network_env example_configuration
         (example_transport 0x0A000003) accept_two)) = m_tcp_connections accept_two
   \<and> non_log_events (tcp_trace (snd (handle_accept example_network_env example_configuration
         (example_transport 0x0A000003) accept_two)))
       = non_log_events (tcp_trace accept_two) @ [Transport_stop (example_transport 0x0A000003)]
   \<and> length (m_tcp_connections (snd (handle_accept example_network_env
         example_configuration (example_transport 0x0A000003) accept_two))) = 2"
  using handle_accept_capacity [of "example_transport 0x0A000003"
      "\<lparr>address = 0x0A000003, port = 5000\<rparr>" example_configuration accept_two
      example_network_env]
  by (simp add: accept_two_eq example_transport_def example_configuration_def
      network_tcp_inbound_maximum_def)

text \<open>
  Claim C5 on the code. The ban test of \<open>handle_accept\<close> calls \<open>remote_endpoint()\<close> outside
  any \<open>try\<close> block, while the duplicate loop before it and the group loop of \<open>tick\<close> catch
  the exception of the same call. For a transport whose \<open>remote_endpoint()\<close> throws, the
  exception leaves \<open>handle_accept\<close>: with the table at the inbound maximum the transport is
  not stopped, where the claim says that it is. The same happens on the empty table.
\<close>

theorem handle_accept_unreadable_not_stopped:
  "network_tcp_inbound_maximum example_configuration \<le> length (m_tcp_connections accept_two)
   \<and> handle_accept example_network_env example_configuration
        \<lparr>socket_remote_endpoint = None\<rparr> accept_two
      = (Some Remote_endpoint_failed, accept_two)
   \<and> Transport_stop \<lparr>socket_remote_endpoint = None\<rparr>
        \<notin> set (tcp_trace (snd (handle_accept example_network_env example_configuration
             \<lparr>socket_remote_endpoint = None\<rparr> accept_two)))
   \<and> handle_accept example_network_env example_configuration
        \<lparr>socket_remote_endpoint = None\<rparr> tcp_connection_manager_init
      = (Some Remote_endpoint_failed, tcp_connection_manager_init)"
  by (simp add: accept_two_eq handle_accept_def example_configuration_def
      network_tcp_inbound_maximum_def tcp_connection_manager_init_def)

lemma do_resolve_front:
  "do_resolve env qs s = Inl Vector_front_on_empty \<longleftrightarrow> qs = []"
proof (induction qs arbitrary: s)
  case Nil
  show ?case by simp
next
  case (Cons q tmp)
  show ?case
  proof (cases "tmp = []")
    case True
    then show ?thesis by (simp add: Let_def)
  next
    case False
    then have "\<And>s'. do_resolve env tmp s' \<noteq> Inl Vector_front_on_empty"
      using Cons.IH by simp
    with False show ?thesis by (simp add: Let_def)
  qed
qed

lemma do_resolve_returns:
  "qs \<noteq> [] \<Longrightarrow> length qs \<le> 100 \<Longrightarrow> \<exists>s'. do_resolve env qs s = Inr s'"
proof (induction qs arbitrary: s)
  case Nil
  then show ?case by simp
next
  case (Cons q tmp)
  show ?case
  proof (cases "tmp = []")
    case True
    then show ?thesis by (simp add: Let_def)
  next
    case False
    then have "\<And>s'. \<exists>s''. do_resolve env tmp s' = Inr s''"
      using Cons.IH Cons.prems by simp
    with False Cons.prems show ?thesis by (simp add: Let_def)
  qed
qed

lemma random_shuffle_Nil [simp]: "random_shuffle rnd [] = []"
  by (simp add: random_shuffle_def)

text \<open>
  Claim C10. \<open>do_resolve\<close> ends in the error of \<open>front()\<close> on an empty vector exactly when
  its query list is empty; on a non-empty list of at most 100 queries it returns; and
  \<open>start\<close> with no bootstrap node ends in that error.
\<close>

theorem do_resolve_needs_front:
  "(do_resolve env qs s = Inl Vector_front_on_empty \<longleftrightarrow> qs = [])
   \<and> (qs \<noteq> [] \<and> length qs \<le> 100 \<longrightarrow> (\<exists>s'. do_resolve env qs s = Inr s'))
   \<and> (bootstrap_nodes cfg = [] \<longrightarrow>
        tcp_connection_manager_start env cfg s = Inl Vector_front_on_empty)"
  using do_resolve_front [of env qs s] do_resolve_returns [of qs env s]
  by (auto simp: tcp_connection_manager_start_def)

text \<open>Claim C10 on one bootstrap node and on none.\<close>

theorem do_resolve_needs_front_witness:
  "[(''node.example.org'', 8333 :: 16 word)] \<noteq> []
   \<and> length [(''node.example.org'', 8333 :: 16 word)] \<le> 100
   \<and> do_resolve example_network_env [(''node.example.org'', 8333)] tcp_connection_manager_init
       = Inr (tcp_connection_manager_init\<lparr>tcp_trace :=
                [Async_resolve (''node.example.org'', 8333)]\<rparr>)
   \<and> bootstrap_nodes example_configuration = []
   \<and> tcp_connection_manager_start example_network_env example_configuration
         tcp_connection_manager_init = Inl Vector_front_on_empty"
  using do_resolve_needs_front [of example_network_env "[(''node.example.org'', 8333)]"
      tcp_connection_manager_init example_configuration]
  by (simp add: example_network_env_def example_configuration_def bootstrap_nodes_def
      tcp_connection_manager_init_def tcp_emit_def Let_def)

lemma connection_starts_append [simp]:
  "connection_starts (xs @ ys) = connection_starts xs @ connection_starts ys"
  by (induction xs rule: connection_starts.induct) simp_all

lemma same_group_scan_iff:
  "same_group_scan env addr t acc \<longleftrightarrow>
     acc \<or> (\<exists>k c transport rep. (k, c) \<in> set t \<and> connection_lock env k
              \<and> get_tcp_transport env k = Some transport
              \<and> socket_remote_endpoint transport = Some rep
              \<and> group env addr = group env (from_endpoint env rep))"
proof (induction t arbitrary: acc)
  case Nil
  show ?case by simp
next
  case (Cons e t)
  obtain k c where e: "e = (k, c)" by (cases e)
  show ?case
    unfolding e same_group_scan.simps Cons.IH
    by (auto split: option.splits)
qed

lemma tick_decide_connect:
  "tick_decide env t addr now = Candidate_connect ep \<Longrightarrow>
     is_valid env addr \<and> \<not> is_local env addr \<and> \<not> same_group_scan env addr t False
     \<and> \<not> now - last_try addr < 600
     \<and> ep = \<lparr>address = ipv4_mapped_address env addr, port = na_port addr\<rparr>"
  by (auto simp: tick_decide_def Let_def split: if_splits)

lemma connect_starts:
  "connection_starts (tcp_trace (snd (connect env ep s)))
     = connection_starts (tcp_trace s) \<or>
   connection_starts (tcp_trace (snd (connect env ep s)))
     = connection_starts (tcp_trace s) @ [ep]"
  by (simp add: connect_def Let_def)

lemma tick_attempt_starts:
  "\<exists>eps. connection_starts (tcp_trace (tick_attempt env i s))
            = connection_starts (tcp_trace s) @ eps
        \<and> (\<forall>ep \<in> set eps. \<exists>j b t.
              tick_decide env t (select env j b) (get_adjusted env j) = Candidate_connect ep)"
proof (cases "tick_decide env (m_tcp_connections s) (tick_candidate env s i) (get_adjusted env i)")
  case Candidate_skipped
  then show ?thesis by (simp add: tick_attempt_def)
next
  case Candidate_too_soon
  then show ?thesis by (simp add: tick_attempt_def)
next
  case (Candidate_connect ep)
  then have d: "\<exists>j b t. tick_decide env t (select env j b) (get_adjusted env j)
      = Candidate_connect ep"
    unfolding tick_candidate_def by blast
  have "connection_starts (tcp_trace (tick_attempt env i s))
      = connection_starts (tcp_trace (snd (connect env ep s)))"
    using Candidate_connect by (simp add: tick_attempt_def split: prod.splits)
  with connect_starts [of env ep s] d show ?thesis by (metis append_Nil2 empty_iff empty_set set_ConsD)
qed

lemma tick_topup_starts:
  "\<exists>eps. connection_starts (tcp_trace (tick_topup env m i s))
            = connection_starts (tcp_trace s) @ eps
        \<and> (\<forall>ep \<in> set eps. \<exists>j b t.
              tick_decide env t (select env j b) (get_adjusted env j) = Candidate_connect ep)"
proof (induction env m i s rule: tick_topup.induct)
  case (1 env m i s)
  show ?case
  proof (cases "i < topup_bound m s")
    case True
    obtain eps1 where 1: "connection_starts (tcp_trace (tick_attempt env i s))
            = connection_starts (tcp_trace s) @ eps1"
      "\<forall>ep \<in> set eps1. \<exists>j b t.
              tick_decide env t (select env j b) (get_adjusted env j) = Candidate_connect ep"
      using tick_attempt_starts by blast
    obtain eps2 where 2:
      "connection_starts (tcp_trace (tick_topup env m (i + 1) (tick_attempt env i s)))
            = connection_starts (tcp_trace (tick_attempt env i s)) @ eps2"
      "\<forall>ep \<in> set eps2. \<exists>j b t.
              tick_decide env t (select env j b) (get_adjusted env j) = Candidate_connect ep"
      using "1.IH" [OF True] by blast
    have "tick_topup env m i s = tick_topup env m (i + 1) (tick_attempt env i s)"
      using True by (subst tick_topup.simps) simp
    then have "connection_starts (tcp_trace (tick_topup env m i s))
        = connection_starts (tcp_trace s) @ (eps1 @ eps2)"
      using 1(1) 2(1) by simp
    moreover have "\<forall>ep \<in> set (eps1 @ eps2). \<exists>j b t.
              tick_decide env t (select env j b) (get_adjusted env j) = Candidate_connect ep"
      using 1(2) 2(2) by auto
    ultimately show ?thesis by blast
  next
    case False
    then have "tick_topup env m i s = s" by (subst tick_topup.simps) simp
    then show ?thesis by simp
  qed
qed

lemma tick_prune_starts: "connection_starts (snd (tick_prune env t)) = []"
  by (induction t) (auto split: prod.splits)

lemma tick_starts:
  "\<exists>eps. connection_starts (tcp_trace (tick env m ec s))
            = connection_starts (tcp_trace s) @ eps
        \<and> (\<forall>ep \<in> set eps. \<exists>j b t.
              tick_decide env t (select env j b) (get_adjusted env j) = Candidate_connect ep)"
proof (cases ec)
  case True
  then show ?thesis by (simp add: tick_def)
next
  case False
  obtain t stops where p: "tick_prune env (m_tcp_connections s) = (t, stops)"
    by (cases "tick_prune env (m_tcp_connections s)")
  have st: "connection_starts stops = []"
    using tick_prune_starts [of env "m_tcp_connections s"] p by simp
  define s1 where "s1 = tcp_emit stops (s\<lparr>m_tcp_connections := t\<rparr>)"
  have s1: "connection_starts (tcp_trace s1) = connection_starts (tcp_trace s)"
    by (simp add: s1_def st)
  show ?thesis
  proof (cases "length (m_tcp_connections s1) < m + 1")
    case True
    then have "connection_starts (tcp_trace (tick env m ec s))
        = connection_starts (tcp_trace (tick_topup env m 0 s1))"
      using False p by (simp add: tick_def Let_def s1_def)
    with tick_topup_starts [of env m 0 s1] s1 show ?thesis by simp
  next
    case nt: False
    then have "connection_starts (tcp_trace (tick env m ec s))
        = connection_starts (tcp_trace s1)"
      using False p by (simp add: tick_def Let_def s1_def)
    with s1 show ?thesis by simp
  qed
qed

lemma too_soon_word:
  "(lt :: 64 word) \<le> now \<Longrightarrow> unat now - unat lt < 600 \<Longrightarrow> now - lt < 600"
  by (simp add: word_less_nat_alt unat_sub)

lemma tick_attempt_skipped:
  "tick_decide env (m_tcp_connections s) (tick_candidate env s i) (get_adjusted env i)
     = Candidate_skipped \<Longrightarrow> tick_attempt env i s = s"
  by (simp add: tick_attempt_def)

lemma tick_attempt_too_soon:
  "tick_decide env (m_tcp_connections s) (tick_candidate env s i) (get_adjusted env i)
     = Candidate_too_soon \<Longrightarrow>
   tick_attempt env i s
     = tcp_emit [Log_debug ''TCP connection manager attempted to connect too soon''] s"
  by (simp add: tick_attempt_def)

lemma tick_new_starts:
  "\<forall>ep \<in> set (drop (length (connection_starts (tcp_trace s)))
                  (connection_starts (tcp_trace (tick env m ec s)))).
     \<exists>j b t. tick_decide env t (select env j b) (get_adjusted env j) = Candidate_connect ep"
proof -
  obtain eps where "connection_starts (tcp_trace (tick env m ec s))
            = connection_starts (tcp_trace s) @ eps"
    "\<forall>ep \<in> set eps. \<exists>j b t.
        tick_decide env t (select env j b) (get_adjusted env j) = Candidate_connect ep"
    using tick_starts by blast
  then show ?thesis by simp
qed

lemmas example_env_simps =
  example_network_env_def tick_def tick_attempt_def tick_decide_def tick_candidate_def
  connect_def table_find_def tcp_emit_def endpoint_less_def topup_bound_def Let_def
  table_groups_def

text \<open>
  Claim C6. A candidate of the top-up loop whose last attempt lies less than 600 seconds
  before the adjusted time is not passed to \<open>connect\<close>: the iteration leaves the table as it
  is and adds log lines only. Every outgoing connection that a tick starts goes to the
  endpoint of a selected address that was not tried in the 600 seconds before.
\<close>

theorem tick_backoff:
  "(addr = tick_candidate env s i \<and> last_try addr \<le> get_adjusted env i
      \<and> unat (get_adjusted env i) - unat (last_try addr) < 600 \<longrightarrow>
      tick_decide env (m_tcp_connections s) addr (get_adjusted env i) \<noteq> Candidate_connect ep
      \<and> m_tcp_connections (tick_attempt env i s) = m_tcp_connections s
      \<and> non_log_events (tcp_trace (tick_attempt env i s)) = non_log_events (tcp_trace s))
   \<and> (\<forall>ep' \<in> set (drop (length (connection_starts (tcp_trace s)))
                     (connection_starts (tcp_trace (tick env m ec s)))).
        \<exists>j b. ep' = \<lparr>address = ipv4_mapped_address env (select env j b),
                      port = na_port (select env j b)\<rparr>
          \<and> \<not> (last_try (select env j b) \<le> get_adjusted env j
               \<and> unat (get_adjusted env j) - unat (last_try (select env j b)) < 600))"
proof -
  have body: "addr = tick_candidate env s i \<and> last_try addr \<le> get_adjusted env i
      \<and> unat (get_adjusted env i) - unat (last_try addr) < 600 \<longrightarrow>
      tick_decide env (m_tcp_connections s) addr (get_adjusted env i) \<noteq> Candidate_connect ep
      \<and> m_tcp_connections (tick_attempt env i s) = m_tcp_connections s
      \<and> non_log_events (tcp_trace (tick_attempt env i s)) = non_log_events (tcp_trace s)"
  proof (intro impI, elim conjE)
    assume a: "addr = tick_candidate env s i" and le: "last_try addr \<le> get_adjusted env i"
      and lt: "unat (get_adjusted env i) - unat (last_try addr) < 600"
    have w: "get_adjusted env i - last_try addr < 600"
      using too_soon_word [OF le lt] .
    then have d: "tick_decide env (m_tcp_connections s) addr (get_adjusted env i)
          = Candidate_skipped
        \<or> tick_decide env (m_tcp_connections s) addr (get_adjusted env i)
          = Candidate_too_soon"
      by (simp add: tick_decide_def Let_def)
    then show "tick_decide env (m_tcp_connections s) addr (get_adjusted env i)
          \<noteq> Candidate_connect ep
      \<and> m_tcp_connections (tick_attempt env i s) = m_tcp_connections s
      \<and> non_log_events (tcp_trace (tick_attempt env i s)) = non_log_events (tcp_trace s)"
      using tick_attempt_skipped [of env s i] tick_attempt_too_soon [of env s i]
      unfolding a by auto
  qed
  have pass: "\<forall>ep' \<in> set (drop (length (connection_starts (tcp_trace s)))
                     (connection_starts (tcp_trace (tick env m ec s)))).
        \<exists>j b. ep' = \<lparr>address = ipv4_mapped_address env (select env j b),
                      port = na_port (select env j b)\<rparr>
          \<and> \<not> (last_try (select env j b) \<le> get_adjusted env j
               \<and> unat (get_adjusted env j) - unat (last_try (select env j b)) < 600)"
  proof
    fix ep'
    assume "ep' \<in> set (drop (length (connection_starts (tcp_trace s)))
                     (connection_starts (tcp_trace (tick env m ec s))))"
    then obtain j b t where
      "tick_decide env t (select env j b) (get_adjusted env j) = Candidate_connect ep'"
      using tick_new_starts [of s env m ec] by blast
    from tick_decide_connect [OF this]
    have "ep' = \<lparr>address = ipv4_mapped_address env (select env j b),
                 port = na_port (select env j b)\<rparr>"
      and "\<not> get_adjusted env j - last_try (select env j b) < 600"
      by simp_all
    then show "\<exists>j b. ep' = \<lparr>address = ipv4_mapped_address env (select env j b),
                      port = na_port (select env j b)\<rparr>
          \<and> \<not> (last_try (select env j b) \<le> get_adjusted env j
               \<and> unat (get_adjusted env j) - unat (last_try (select env j b)) < 600)"
      using too_soon_word by blast
  qed
  from body pass show ?thesis by blast
qed

text \<open>
  Claim C6 on an address tried 100 seconds ago, and on addresses never tried, to which the
  tick connects.
\<close>

theorem tick_backoff_witness:
  "last_try (tick_candidate example_recent_env accept_two 0) \<le> get_adjusted example_recent_env 0
   \<and> unat (get_adjusted example_recent_env 0)
       - unat (last_try (tick_candidate example_recent_env accept_two 0)) = 100
   \<and> tick_decide example_recent_env (m_tcp_connections accept_two)
        (tick_candidate example_recent_env accept_two 0) (get_adjusted example_recent_env 0)
       = Candidate_too_soon
   \<and> tick_attempt example_recent_env 0 accept_two
       = accept_two\<lparr>tcp_trace := tcp_trace accept_two @
           [Log_debug ''TCP connection manager attempted to connect too soon'']\<rparr>
   \<and> connection_starts (tcp_trace (tick example_recent_env 8 False accept_two)) = []
   \<and> connection_starts (tcp_trace (tick example_network_env 8 False accept_two))
       = [\<lparr>address = 0x14000001, port = 8333\<rparr>, \<lparr>address = 0x15000001, port = 8333\<rparr>,
          \<lparr>address = 0x16000001, port = 8333\<rparr>]"
  using tick_backoff [of "tick_candidate example_recent_env accept_two 0" example_recent_env
      accept_two 0 "\<lparr>address = 0x14000001, port = 8333\<rparr>" 8 False]
    tick_backoff [of "tick_candidate example_network_env accept_two 0" example_network_env
      accept_two 0 "\<lparr>address = 0x14000001, port = 8333\<rparr>" 8 False]
  by (simp add: accept_two_eq example_recent_env_def example_env_simps tick_topup.simps)

text \<open>
  Claim C7, as amended. A candidate of the top-up loop that is invalid, local, or in the
  group of the remote endpoint of an entry whose connection and transport are alive and
  whose remote endpoint can be read, is skipped: the iteration leaves the state as it is.
  Every outgoing connection that a tick starts goes to the endpoint of a selected address
  that is valid and not local.
\<close>

theorem tick_one_peer_per_group:
  "(addr = tick_candidate env s i
      \<and> (is_valid env addr = False \<or> is_local env addr
          \<or> (k, c) \<in> set (m_tcp_connections s) \<and> connection_lock env k
              \<and> get_tcp_transport env k = Some transport
              \<and> socket_remote_endpoint transport = Some rep
              \<and> group env addr = group env (from_endpoint env rep)) \<longrightarrow>
      tick_decide env (m_tcp_connections s) addr (get_adjusted env i) = Candidate_skipped
      \<and> tick_attempt env i s = s)
   \<and> (\<forall>ep' \<in> set (drop (length (connection_starts (tcp_trace s)))
                     (connection_starts (tcp_trace (tick env m ec s)))).
        \<exists>j b. ep' = \<lparr>address = ipv4_mapped_address env (select env j b),
                      port = na_port (select env j b)\<rparr>
          \<and> is_valid env (select env j b) \<and> \<not> is_local env (select env j b))"
proof -
  have body: "addr = tick_candidate env s i
      \<and> (is_valid env addr = False \<or> is_local env addr
          \<or> (k, c) \<in> set (m_tcp_connections s) \<and> connection_lock env k
              \<and> get_tcp_transport env k = Some transport
              \<and> socket_remote_endpoint transport = Some rep
              \<and> group env addr = group env (from_endpoint env rep)) \<longrightarrow>
      tick_decide env (m_tcp_connections s) addr (get_adjusted env i) = Candidate_skipped
      \<and> tick_attempt env i s = s"
  proof (intro impI, elim conjE)
    assume a: "addr = tick_candidate env s i"
      and r: "is_valid env addr = False \<or> is_local env addr
          \<or> (k, c) \<in> set (m_tcp_connections s) \<and> connection_lock env k
              \<and> get_tcp_transport env k = Some transport
              \<and> socket_remote_endpoint transport = Some rep
              \<and> group env addr = group env (from_endpoint env rep)"
    have "is_valid env addr = False \<or> is_local env addr
        \<or> same_group_scan env addr (m_tcp_connections s) False"
      using r unfolding same_group_scan_iff by blast
    then have d: "tick_decide env (m_tcp_connections s) addr (get_adjusted env i)
        = Candidate_skipped"
      by (auto simp: tick_decide_def Let_def)
    with tick_attempt_skipped [of env s i] a
    show "tick_decide env (m_tcp_connections s) addr (get_adjusted env i) = Candidate_skipped
      \<and> tick_attempt env i s = s"
      by simp
  qed
  have pass: "\<forall>ep' \<in> set (drop (length (connection_starts (tcp_trace s)))
                     (connection_starts (tcp_trace (tick env m ec s)))).
        \<exists>j b. ep' = \<lparr>address = ipv4_mapped_address env (select env j b),
                      port = na_port (select env j b)\<rparr>
          \<and> is_valid env (select env j b) \<and> \<not> is_local env (select env j b)"
  proof
    fix ep'
    assume "ep' \<in> set (drop (length (connection_starts (tcp_trace s)))
                     (connection_starts (tcp_trace (tick env m ec s))))"
    then obtain j b t where
      "tick_decide env t (select env j b) (get_adjusted env j) = Candidate_connect ep'"
      using tick_new_starts [of s env m ec] by blast
    from tick_decide_connect [OF this]
    show "\<exists>j b. ep' = \<lparr>address = ipv4_mapped_address env (select env j b),
                      port = na_port (select env j b)\<rparr>
          \<and> is_valid env (select env j b) \<and> \<not> is_local env (select env j b)"
      by blast
  qed
  from body pass show ?thesis by blast
qed

text \<open>The amended claim C7 on the candidate \<open>10.0.5.5\<close> while \<open>10.0.0.1\<close> is connected.\<close>

theorem tick_one_peer_per_group_witness:
  "(\<lparr>address = 0x0A000001, port = 5000\<rparr>, \<lparr>direction = direction_incoming\<rparr>)
     \<in> set (m_tcp_connections accept_two)
   \<and> connection_lock example_same_group_env \<lparr>address = 0x0A000001, port = 5000\<rparr>
   \<and> get_tcp_transport example_same_group_env \<lparr>address = 0x0A000001, port = 5000\<rparr>
       = Some \<lparr>socket_remote_endpoint = Some \<lparr>address = 0x0A000001, port = 5000\<rparr>\<rparr>
   \<and> group example_same_group_env (tick_candidate example_same_group_env accept_two 0)
       = group example_same_group_env
           (from_endpoint example_same_group_env \<lparr>address = 0x0A000001, port = 5000\<rparr>)
   \<and> is_valid example_same_group_env (tick_candidate example_same_group_env accept_two 0)
   \<and> tick_decide example_same_group_env (m_tcp_connections accept_two)
        (tick_candidate example_same_group_env accept_two 0)
        (get_adjusted example_same_group_env 0) = Candidate_skipped
   \<and> tick_attempt example_same_group_env 0 accept_two = accept_two
   \<and> connection_starts (tcp_trace (tick example_same_group_env 8 False accept_two)) = []"
  using tick_one_peer_per_group [of "tick_candidate example_same_group_env accept_two 0"
      example_same_group_env accept_two 0 "\<lparr>address = 0x0A000001, port = 5000\<rparr>"
      "\<lparr>direction = direction_incoming\<rparr>"
      "\<lparr>socket_remote_endpoint = Some \<lparr>address = 0x0A000001, port = 5000\<rparr>\<rparr>"
      "\<lparr>address = 0x0A000001, port = 5000\<rparr>" 8 False]
  by (simp add: accept_two_eq example_same_group_env_def example_env_simps tick_topup.simps)

lemma tick_accept_two_table:
  "m_tcp_connections (tick example_network_env 8 False accept_two) =
     [(\<lparr>address = 0x0A000001, port = 5000\<rparr>, \<lparr>direction = direction_incoming\<rparr>),
      (\<lparr>address = 0x0A000002, port = 5000\<rparr>, \<lparr>direction = direction_incoming\<rparr>),
      (\<lparr>address = 0x14000001, port = 8333\<rparr>, \<lparr>direction = direction_outgoing\<rparr>),
      (\<lparr>address = 0x15000001, port = 8333\<rparr>, \<lparr>direction = direction_outgoing\<rparr>),
      (\<lparr>address = 0x16000001, port = 8333\<rparr>, \<lparr>direction = direction_outgoing\<rparr>)]"
  by (simp add: accept_two_eq example_env_simps tick_topup.simps)

text \<open>
  Claim C7 as stated fails: \<open>handle_accept\<close> admits \<open>10.0.0.1\<close> and \<open>10.0.0.2\<close>, which are
  in one group, and after a tick that connects to candidates of three further groups the
  table still holds both.
\<close>

theorem tick_groups_counterexample:
  "table_groups example_network_env (m_tcp_connections accept_two) = [2560, 2560]
   \<and> table_groups example_network_env
        (m_tcp_connections (tick example_network_env 8 False accept_two))
       = [2560, 2560, 5120, 5376, 5632]
   \<and> \<not> distinct (table_groups example_network_env
        (m_tcp_connections (tick example_network_env 8 False accept_two)))"
  by (simp add: tick_accept_two_table) (simp add: accept_two_eq table_groups_def example_network_env_def)

text \<open>
  The group test reads the remote endpoint of a transport. While the socket of an outgoing
  connection has none, its entry is passed over, and one tick can connect to two addresses
  of one group.
\<close>

lemma tick_connecting_same_group:
  "m_tcp_connections (tick example_connecting_env 2 False tcp_connection_manager_init)
     = [(\<lparr>address = 0x0A000001, port = 8333\<rparr>, \<lparr>direction = direction_outgoing\<rparr>)]
   \<and> table_groups example_connecting_env
        (m_tcp_connections (tick example_connecting_env 3 False tcp_connection_manager_init))
       = [2560, 2560]"
  by (simp add: example_connecting_env_def tcp_connection_manager_init_def example_env_simps
      tick_topup.simps)

end
